theory Spec2Isabelle
  imports Complex_Main
begin

section \<open>Values\<close>

text \<open>
  The book inventory is written in JavaScript over Mongoose.  A JavaScript number is
  modelled by a real number: the guards of the program compare and add numbers, and on the
  integers and short decimal fractions a request carries these operations are exact.
  NaN, the infinities and the rounding of very large magnitudes are outside the model.
  A string is a list of characters; an ObjectId is an abstract natural number.
\<close>

type_synonym objectId = nat

definition isInteger :: "real \<Rightarrow> bool" where
  \<comment> \<open>\<open>Number.isInteger\<close>\<close>
  "isInteger x = (of_int \<lfloor>x\<rfloor> = x)"

definition isWhiteSpace :: "char \<Rightarrow> bool" where
  \<comment> \<open>the ASCII members of the WhiteSpace and LineTerminator classes:
      tab, line feed, vertical tab, form feed, carriage return, space\<close>
  "isWhiteSpace c = (c \<in> set [CHR 0x09, CHR 0x0A, CHR 0x0B, CHR 0x0C, CHR 0x0D, CHR 0x20])"

definition trim :: "string \<Rightarrow> string" where
  \<comment> \<open>\<open>String.prototype.trim\<close>\<close>
  "trim s = rev (dropWhile isWhiteSpace (rev (dropWhile isWhiteSpace s)))"

subsection \<open>parseInt\<close>

definition digitValue :: "char \<Rightarrow> nat option" where
  "digitValue c =
     (let n = of_char c :: nat in
      if 48 \<le> n \<and> n \<le> 57 then Some (n - 48)
      else if 97 \<le> n \<and> n \<le> 122 then Some (n - 87)
      else if 65 \<le> n \<and> n \<le> 90 then Some (n - 55)
      else None)"

definition isRadixDigit :: "nat \<Rightarrow> char \<Rightarrow> bool" where
  "isRadixDigit r c = (case digitValue c of None \<Rightarrow> False | Some d \<Rightarrow> d < r)"

definition digitsValue :: "nat \<Rightarrow> string \<Rightarrow> nat" where
  "digitsValue r ds =
     foldl (\<lambda>acc c. acc * r + (case digitValue c of None \<Rightarrow> 0 | Some d \<Rightarrow> d)) 0 ds"

definition parseInt :: "string \<Rightarrow> int option" where
  \<comment> \<open>\<open>parseInt(string)\<close> with no radix argument; \<open>None\<close> stands for NaN\<close>
  "parseInt inputString =
     (let s = dropWhile isWhiteSpace inputString;
          neg = (s \<noteq> [] \<and> hd s = CHR ''-'');
          s1 = (if s \<noteq> [] \<and> (hd s = CHR ''+'' \<or> hd s = CHR ''-'') then tl s else s);
          hex = (length s1 \<ge> 2 \<and> hd s1 = CHR ''0''
                 \<and> (hd (tl s1) = CHR ''x'' \<or> hd (tl s1) = CHR ''X''));
          r = (if hex then 16 else 10);
          s2 = (if hex then drop 2 s1 else s1);
          z = takeWhile (isRadixDigit r) s2
      in if z = [] then None
         else Some ((if neg then - 1 else 1) * int (digitsValue r z)))"

section \<open>The Book schema\<close>

datatype path = Title | Author | Category | PublishedYear | AvailableCopies

datatype validatorKind = Required | MinLength | Enum | Min | Max | IntegerValidator

text \<open>
  A schema path of type String or Number with the options the two schema literals use.
  Every path of both schemas is declared \<open>required\<close>, so the model runs the required
  validator on every path and a stored document has every field.
\<close>

record stringType =
  str_trim :: bool
  str_minlength :: "nat option"
  str_enum :: "string list option"

record numberType =
  num_min :: "real option"
  num_max :: "real option"
  num_default :: "real option"
  num_validate_isInteger :: bool

record schema =
  title_type :: stringType
  author_type :: stringType
  category_type :: stringType
  publishedYear_type :: numberType
  availableCopies_type :: numberType

definition categories :: "string list" where
  "categories = [''Fiction'', ''Non-Fiction'', ''Science'', ''Technology'', ''History'',
                 ''Biography'', ''Self-Help'']"

definition library_bookSchema :: "real \<Rightarrow> schema" where
  \<comment> \<open>\<open>bookSchema\<close> of library.js; the argument is \<open>new Date().getFullYear()\<close>,
      read once when the schema is built\<close>
  "library_bookSchema fullYear =
     \<lparr> title_type = \<lparr> str_trim = True, str_minlength = Some 1, str_enum = None \<rparr>,
       author_type = \<lparr> str_trim = True, str_minlength = Some 1, str_enum = None \<rparr>,
       category_type = \<lparr> str_trim = True, str_minlength = None, str_enum = Some categories \<rparr>,
       publishedYear_type =
         \<lparr> num_min = Some 1000, num_max = Some fullYear, num_default = None,
           num_validate_isInteger = True \<rparr>,
       availableCopies_type =
         \<lparr> num_min = Some 0, num_max = None, num_default = Some 1,
           num_validate_isInteger = True \<rparr> \<rparr>"

definition server_bookSchema :: "real \<Rightarrow> schema" where
  \<comment> \<open>\<open>bookSchema\<close> of server.js\<close>
  "server_bookSchema fullYear =
     \<lparr> title_type = \<lparr> str_trim = True, str_minlength = None, str_enum = None \<rparr>,
       author_type = \<lparr> str_trim = True, str_minlength = None, str_enum = None \<rparr>,
       category_type = \<lparr> str_trim = False, str_minlength = None, str_enum = Some categories \<rparr>,
       publishedYear_type =
         \<lparr> num_min = Some 1000, num_max = Some fullYear, num_default = None,
           num_validate_isInteger = False \<rparr>,
       availableCopies_type =
         \<lparr> num_min = Some 0, num_max = None, num_default = Some 1,
           num_validate_isInteger = False \<rparr> \<rparr>"

subsection \<open>Documents\<close>

text \<open>
  \<open>fields\<close> is a plain object with the schema's keys, each present or absent: a request
  body, an element of the seed array, an update.  \<open>book\<close> is a stored document.  The
  timestamps the store maintains are not modelled.
\<close>

record fields =
  body_title :: "string option"
  body_author :: "string option"
  body_category :: "string option"
  body_publishedYear :: "real option"
  body_availableCopies :: "real option"

record book =
  book_id :: objectId
  title :: string
  author :: string
  category :: string
  publishedYear :: real
  availableCopies :: real

subsection \<open>Setters, defaults and validators\<close>

definition applySetters :: "stringType \<Rightarrow> string \<Rightarrow> string" where
  "applySetters t s = (if str_trim t then trim s else s)"

definition applyDefault :: "numberType \<Rightarrow> real option \<Rightarrow> real option" where
  "applyDefault t v = (case v of None \<Rightarrow> num_default t | Some x \<Rightarrow> Some x)"

definition validateString :: "stringType \<Rightarrow> string option \<Rightarrow> validatorKind option" where
  \<comment> \<open>the first validator of the path that fails, in the order of declaration; only the
      required validator runs on an absent value, and it rejects the empty string\<close>
  "validateString t v =
     (case v of
        None \<Rightarrow> Some Required
      | Some s \<Rightarrow>
          if s = [] then Some Required
          else if (case str_minlength t of None \<Rightarrow> False | Some n \<Rightarrow> length s < n)
            then Some MinLength
          else if (case str_enum t of None \<Rightarrow> False | Some vs \<Rightarrow> s \<notin> set vs)
            then Some Enum
          else None)"

definition validateNumber :: "numberType \<Rightarrow> real option \<Rightarrow> validatorKind option" where
  "validateNumber t v =
     (case v of
        None \<Rightarrow> Some Required
      | Some x \<Rightarrow>
          if (case num_min t of None \<Rightarrow> False | Some m \<Rightarrow> x < m) then Some Min
          else if (case num_max t of None \<Rightarrow> False | Some m \<Rightarrow> m < x) then Some Max
          else if num_validate_isInteger t \<and> \<not> isInteger x then Some IntegerValidator
          else None)"

definition pathError :: "path \<Rightarrow> validatorKind option \<Rightarrow> (path \<times> validatorKind) list" where
  "pathError p r = (case r of None \<Rightarrow> [] | Some k \<Rightarrow> [(p, k)])"

definition castFields :: "schema \<Rightarrow> fields \<Rightarrow> fields" where
  \<comment> \<open>\<open>new Book(obj)\<close>: setters on the strings, defaults on the absent numbers\<close>
  "castFields sch f =
     \<lparr> body_title = map_option (applySetters (title_type sch)) (body_title f),
       body_author = map_option (applySetters (author_type sch)) (body_author f),
       body_category = map_option (applySetters (category_type sch)) (body_category f),
       body_publishedYear = applyDefault (publishedYear_type sch) (body_publishedYear f),
       body_availableCopies = applyDefault (availableCopies_type sch) (body_availableCopies f) \<rparr>"

definition validatePaths :: "schema \<Rightarrow> fields \<Rightarrow> (path \<times> validatorKind) list" where
  \<comment> \<open>document validation: every path, one error for each path that fails\<close>
  "validatePaths sch f =
     pathError Title (validateString (title_type sch) (body_title f))
     @ pathError Author (validateString (author_type sch) (body_author f))
     @ pathError Category (validateString (category_type sch) (body_category f))
     @ pathError PublishedYear (validateNumber (publishedYear_type sch) (body_publishedYear f))
     @ pathError AvailableCopies
         (validateNumber (availableCopies_type sch) (body_availableCopies f))"

definition validateUpdate :: "schema \<Rightarrow> fields \<Rightarrow> (path \<times> validatorKind) list" where
  \<comment> \<open>update validators (\<open>runValidators: true\<close>): only the paths the update sets\<close>
  "validateUpdate sch u =
     (case body_title u of None \<Rightarrow> []
      | Some s \<Rightarrow> pathError Title (validateString (title_type sch) (Some s)))
     @ (case body_author u of None \<Rightarrow> []
        | Some s \<Rightarrow> pathError Author (validateString (author_type sch) (Some s)))
     @ (case body_category u of None \<Rightarrow> []
        | Some s \<Rightarrow> pathError Category (validateString (category_type sch) (Some s)))
     @ (case body_publishedYear u of None \<Rightarrow> []
        | Some x \<Rightarrow> pathError PublishedYear (validateNumber (publishedYear_type sch) (Some x)))
     @ (case body_availableCopies u of None \<Rightarrow> []
        | Some x \<Rightarrow>
            pathError AvailableCopies (validateNumber (availableCopies_type sch) (Some x)))"

definition castUpdate :: "schema \<Rightarrow> fields \<Rightarrow> fields" where
  \<comment> \<open>casting of an update: setters on the strings it sets, no defaults\<close>
  "castUpdate sch u =
     u \<lparr> body_title := map_option (applySetters (title_type sch)) (body_title u),
         body_author := map_option (applySetters (author_type sch)) (body_author u),
         body_category := map_option (applySetters (category_type sch)) (body_category u) \<rparr>"

definition toBook :: "objectId \<Rightarrow> fields \<Rightarrow> book option" where
  "toBook i f =
     (case (body_title f, body_author f, body_category f, body_publishedYear f,
            body_availableCopies f) of
        (Some t, Some a, Some c, Some y, Some n) \<Rightarrow>
          Some \<lparr> book_id = i, title = t, author = a, category = c, publishedYear = y,
                 availableCopies = n \<rparr>
      | _ \<Rightarrow> None)"

definition fieldsOf :: "book \<Rightarrow> fields" where
  "fieldsOf b =
     \<lparr> body_title = Some (title b), body_author = Some (author b),
       body_category = Some (category b), body_publishedYear = Some (publishedYear b),
       body_availableCopies = Some (availableCopies b) \<rparr>"

definition applyUpdate :: "fields \<Rightarrow> book \<Rightarrow> book" where
  \<comment> \<open>\<open>$set\<close> of the fields the update carries\<close>
  "applyUpdate u b =
     b \<lparr> title := (case body_title u of None \<Rightarrow> title b | Some t \<Rightarrow> t),
         author := (case body_author u of None \<Rightarrow> author b | Some a \<Rightarrow> a),
         category := (case body_category u of None \<Rightarrow> category b | Some c \<Rightarrow> c),
         publishedYear := (case body_publishedYear u of None \<Rightarrow> publishedYear b | Some y \<Rightarrow> y),
         availableCopies :=
           (case body_availableCopies u of None \<Rightarrow> availableCopies b | Some n \<Rightarrow> n) \<rparr>"

section \<open>The store and the Mongoose model\<close>

text \<open>
  The operations of the model \<open>Book\<close> belong to Mongoose, not to the repository.  They are
  modelled by what the library documents: a document is validated in the client before
  anything is sent; \<open>save()\<close> validates the whole document; the update validators of
  \<open>runValidators\<close> validate the paths an update sets and no other; an id and the operand
  of a query are cast before the round trip, and a value the cast rejects throws; every
  call that reaches the database is one round trip, which may fail.

  What a route or a function ends with when it does not succeed: the two errors the
  program words itself, and the three that Mongoose or the driver throw.
\<close>

datatype failure =
    NotFound
  | InvalidOperation
  | ValidationError "(path \<times> validatorKind) list"
  | CastError
  | StoreError

text \<open>
  The state of the program: the documents of the \<open>books\<close> collection in their natural
  order, the next ObjectId the client generates, and the fate of the coming round trips to
  the database (\<open>True\<close>: the round trip fails, as on a lost connection; an empty schedule:
  no round trip fails).
\<close>

record store =
  docs :: "book list"
  nextId :: objectId
  faults :: "bool list"

definition roundTrip :: "store \<Rightarrow> bool \<times> store" where
  "roundTrip s =
     (case faults s of
        [] \<Rightarrow> (True, s)
      | f # fs \<Rightarrow> (\<not> f, s \<lparr> faults := fs \<rparr>))"

fun updateFirst :: "(book \<Rightarrow> bool) \<Rightarrow> (book \<Rightarrow> book) \<Rightarrow> book list \<Rightarrow> book list" where
  "updateFirst q g [] = []"
| "updateFirst q g (d # ds) = (if q d then g d # ds else d # updateFirst q g ds)"

fun removeFirst :: "(book \<Rightarrow> bool) \<Rightarrow> book list \<Rightarrow> book list" where
  "removeFirst q [] = []"
| "removeFirst q (d # ds) = (if q d then ds else d # removeFirst q ds)"

definition Book_find :: "(book \<Rightarrow> bool) \<Rightarrow> store \<Rightarrow> (failure + book list) \<times> store" where
  "Book_find q s =
     (let (ok, s') = roundTrip s
      in if ok then (Inr (filter q (docs s')), s') else (Inl StoreError, s'))"

definition Book_findOne :: "(book \<Rightarrow> bool) \<Rightarrow> store \<Rightarrow> (failure + book option) \<times> store" where
  "Book_findOne q s =
     (let (ok, s') = roundTrip s
      in if ok then (Inr (List.find q (docs s')), s') else (Inl StoreError, s'))"

definition Book_findById ::
  "(string \<Rightarrow> objectId option) \<Rightarrow> string \<Rightarrow> store \<Rightarrow> (failure + book option) \<times> store" where
  \<comment> \<open>the id is cast to an ObjectId before any round trip; a string the cast rejects
      throws\<close>
  "Book_findById castObjectId idParam s =
     (case castObjectId idParam of
        None \<Rightarrow> (Inl CastError, s)
      | Some i \<Rightarrow> Book_findOne (\<lambda>b. book_id b = i) s)"

definition save :: "schema \<Rightarrow> book \<Rightarrow> store \<Rightarrow> (failure + book) \<times> store" where
  \<comment> \<open>\<open>save()\<close> of a loaded document: the whole document is validated, then written\<close>
  "save sch b s =
     (let errors = validatePaths sch (fieldsOf b)
      in if errors \<noteq> [] then (Inl (ValidationError errors), s)
         else
           (let (ok, s') = roundTrip s
            in if ok
               then (Inr b, s' \<lparr> docs := updateFirst (\<lambda>d. book_id d = book_id b) (\<lambda>d. b) (docs s') \<rparr>)
               else (Inl StoreError, s')))"

definition saveNew :: "schema \<Rightarrow> objectId \<Rightarrow> fields \<Rightarrow> store \<Rightarrow> (failure + book) \<times> store" where
  \<comment> \<open>\<open>save()\<close> of a new document: validated, then inserted\<close>
  "saveNew sch i f s =
     (let errors = validatePaths sch f
      in if errors \<noteq> [] then (Inl (ValidationError errors), s)
         else
           (case toBook i f of
              None \<Rightarrow> (Inl (ValidationError errors), s)
            | Some b \<Rightarrow>
                (let (ok, s') = roundTrip s
                 in if ok then (Inr b, s' \<lparr> docs := docs s' @ [b] \<rparr>)
                    else (Inl StoreError, s'))))"

definition Book_findByIdAndUpdate ::
  "(string \<Rightarrow> objectId option) \<Rightarrow> schema \<Rightarrow> string \<Rightarrow> fields \<Rightarrow> store
     \<Rightarrow> (failure + book option) \<times> store" where
  \<comment> \<open>with \<open>new: true, runValidators: true\<close>: the id and the update are cast, the update
      validators run, and only then the database finds and modifies the document\<close>
  "Book_findByIdAndUpdate castObjectId sch idParam update s =
     (case castObjectId idParam of
        None \<Rightarrow> (Inl CastError, s)
      | Some i \<Rightarrow>
          (let u = castUpdate sch update;
               errors = validateUpdate sch u
           in if errors \<noteq> [] then (Inl (ValidationError errors), s)
              else
                (let (ok, s') = roundTrip s
                 in if \<not> ok then (Inl StoreError, s')
                    else
                      (case List.find (\<lambda>b. book_id b = i) (docs s') of
                         None \<Rightarrow> (Inr None, s')
                       | Some b \<Rightarrow>
                           (Inr (Some (applyUpdate u b)),
                            s' \<lparr> docs := updateFirst (\<lambda>d. book_id d = i) (applyUpdate u)
                                           (docs s') \<rparr>)))))"

definition Book_findByIdAndDelete ::
  "(string \<Rightarrow> objectId option) \<Rightarrow> string \<Rightarrow> store \<Rightarrow> (failure + book option) \<times> store" where
  "Book_findByIdAndDelete castObjectId idParam s =
     (case castObjectId idParam of
        None \<Rightarrow> (Inl CastError, s)
      | Some i \<Rightarrow>
          (let (ok, s') = roundTrip s
           in if \<not> ok then (Inl StoreError, s')
              else (Inr (List.find (\<lambda>b. book_id b = i) (docs s')),
                    s' \<lparr> docs := removeFirst (\<lambda>d. book_id d = i) (docs s') \<rparr>)))"

definition Book_deleteOne :: "(book \<Rightarrow> bool) \<Rightarrow> store \<Rightarrow> (failure + unit) \<times> store" where
  "Book_deleteOne q s =
     (let (ok, s') = roundTrip s
      in if \<not> ok then (Inl StoreError, s')
         else (Inr (), s' \<lparr> docs := removeFirst q (docs s') \<rparr>))"

definition Book_deleteMany :: "store \<Rightarrow> (failure + unit) \<times> store" where
  \<comment> \<open>\<open>Book.deleteMany({})\<close>\<close>
  "Book_deleteMany s =
     (let (ok, s') = roundTrip s
      in if \<not> ok then (Inl StoreError, s') else (Inr (), s' \<lparr> docs := [] \<rparr>))"

fun buildDocs :: "schema \<Rightarrow> objectId \<Rightarrow> fields list \<Rightarrow> failure + book list" where
  "buildDocs sch i [] = Inr []"
| "buildDocs sch i (f # fs) =
     (let d = castFields sch f;
          errors = validatePaths sch d
      in if errors \<noteq> [] then Inl (ValidationError errors)
         else
           (case toBook i d of
              None \<Rightarrow> Inl (ValidationError errors)
            | Some b \<Rightarrow>
                (case buildDocs sch (Suc i) fs of
                   Inl e \<Rightarrow> Inl e
                 | Inr bs \<Rightarrow> Inr (b # bs))))"

definition Book_insertMany :: "schema \<Rightarrow> fields list \<Rightarrow> store \<Rightarrow> (failure + book list) \<times> store" where
  \<comment> \<open>every element is built and validated; one invalid element rejects the whole call
      before anything is sent\<close>
  "Book_insertMany sch arr s =
     (let s0 = s \<lparr> nextId := nextId s + length arr \<rparr>
      in case buildDocs sch (nextId s) arr of
           Inl e \<Rightarrow> (Inl e, s0)
         | Inr bs \<Rightarrow>
             (let (ok, s') = roundTrip s0
              in if ok then (Inr bs, s' \<lparr> docs := docs s' @ bs \<rparr>)
                 else (Inl StoreError, s')))"

definition newBook :: "schema \<Rightarrow> fields \<Rightarrow> store \<Rightarrow> (objectId \<times> fields) \<times> store" where
  \<comment> \<open>\<open>new Book(obj)\<close>: a fresh ObjectId, setters and defaults\<close>
  "newBook sch obj s = ((nextId s, castFields sch obj), s \<lparr> nextId := Suc (nextId s) \<rparr>)"

section \<open>The seed array\<close>

definition obj :: "string \<Rightarrow> string \<Rightarrow> string \<Rightarrow> real \<Rightarrow> real \<Rightarrow> fields" where
  "obj t a c y n =
     \<lparr> body_title = Some t, body_author = Some a, body_category = Some c,
       body_publishedYear = Some y, body_availableCopies = Some n \<rparr>"

definition books :: "fields list" where
  \<comment> \<open>the array of \<open>insertBooks\<close> in library.js and of the seed route in server.js\<close>
  "books =
     [ obj ''The Great Gatsby'' ''F. Scott Fitzgerald'' ''Fiction'' 1925 5,
       obj ''To Kill a Mockingbird'' ''Harper Lee'' ''Fiction'' 1960 3,
       obj ''Sapiens'' ''Yuval Noah Harari'' ''History'' 2011 7,
       obj ''Educated'' ''Tara Westover'' ''Biography'' 2018 4,
       obj ''The Lean Startup'' ''Eric Ries'' ''Technology'' 2011 6,
       obj ''Atomic Habits'' ''James Clear'' ''Self-Help'' 2018 8,
       obj ''A Brief History of Time'' ''Stephen Hawking'' ''Science'' 1988 2,
       obj ''The Midnight Library'' ''Matt Haig'' ''Fiction'' 2020 10 ]"

section \<open>Service mode: the routes of server.js\<close>

text \<open>
  What the process fixes when it starts: the year the schema reads from the clock, and the
  cast of a route parameter to an ObjectId, which belongs to the database client and is a
  parameter of the model.
\<close>

record runtime =
  rt_fullYear :: real
  rt_castObjectId :: "string \<Rightarrow> objectId option"

datatype payload =
    Data book
  | DataList "book list"
  | Deleted
  | Inserted nat "book list"

text \<open>
  A response is its status and its envelope: \<open>Inr\<close> for \<open>success: true\<close> with the data or
  the message, \<open>Inl\<close> for \<open>success: false\<close> with the error.  The error strings the routes
  write themselves are \<open>NotFound\<close> (\<open>Book not found\<close>) and \<open>InvalidOperation\<close>
  (\<open>Cannot have negative copies\<close>, \<open>Cannot delete book with ... copies available\<close>); the
  message of a caught error is the error.
\<close>

record response =
  status :: nat
  json :: "failure + payload"

definition post_books :: "runtime \<Rightarrow> fields \<Rightarrow> store \<Rightarrow> response \<times> store" where
  \<comment> \<open>\<open>app.post('/api/books')\<close>\<close>
  "post_books rt body s =
     (let sch = server_bookSchema (rt_fullYear rt);
          ((i, book), s1) = newBook sch body s
      in case saveNew sch i book s1 of
           (Inr saved, s2) \<Rightarrow> (\<lparr> status = 201, json = Inr (Data saved) \<rparr>, s2)
         | (Inl error, s2) \<Rightarrow> (\<lparr> status = 400, json = Inl error \<rparr>, s2))"

definition get_books :: "store \<Rightarrow> response \<times> store" where
  \<comment> \<open>\<open>app.get('/api/books')\<close>\<close>
  "get_books s =
     (case Book_find (\<lambda>b. True) s of
        (Inr found, s1) \<Rightarrow> (\<lparr> status = 200, json = Inr (DataList found) \<rparr>, s1)
      | (Inl error, s1) \<Rightarrow> (\<lparr> status = 500, json = Inl error \<rparr>, s1))"

definition get_books_category :: "string \<Rightarrow> store \<Rightarrow> response \<times> store" where
  \<comment> \<open>\<open>app.get('/api/books/category/:category')\<close>\<close>
  "get_books_category categoryParam s =
     (case Book_find (\<lambda>b. category b = categoryParam) s of
        (Inr found, s1) \<Rightarrow> (\<lparr> status = 200, json = Inr (DataList found) \<rparr>, s1)
      | (Inl error, s1) \<Rightarrow> (\<lparr> status = 500, json = Inl error \<rparr>, s1))"

definition get_books_year :: "string \<Rightarrow> store \<Rightarrow> response \<times> store" where
  \<comment> \<open>\<open>app.get('/api/books/year/:year')\<close>; the query casts its operand, and NaN is no
      Number\<close>
  "get_books_year yearParam s =
     (case parseInt yearParam of
        None \<Rightarrow> (\<lparr> status = 500, json = Inl CastError \<rparr>, s)
      | Some y \<Rightarrow>
          (case Book_find (\<lambda>b. publishedYear b > of_int y) s of
             (Inr found, s1) \<Rightarrow> (\<lparr> status = 200, json = Inr (DataList found) \<rparr>, s1)
           | (Inl error, s1) \<Rightarrow> (\<lparr> status = 500, json = Inl error \<rparr>, s1)))"

definition get_book :: "runtime \<Rightarrow> string \<Rightarrow> store \<Rightarrow> response \<times> store" where
  \<comment> \<open>\<open>app.get('/api/books/:id')\<close>\<close>
  "get_book rt idParam s =
     (case Book_findById (rt_castObjectId rt) idParam s of
        (Inr None, s1) \<Rightarrow> (\<lparr> status = 404, json = Inl NotFound \<rparr>, s1)
      | (Inr (Some found), s1) \<Rightarrow> (\<lparr> status = 200, json = Inr (Data found) \<rparr>, s1)
      | (Inl error, s1) \<Rightarrow> (\<lparr> status = 500, json = Inl error \<rparr>, s1))"

definition put_book :: "runtime \<Rightarrow> string \<Rightarrow> fields \<Rightarrow> store \<Rightarrow> response \<times> store" where
  \<comment> \<open>\<open>app.put('/api/books/:id')\<close>\<close>
  "put_book rt idParam body s =
     (case Book_findByIdAndUpdate (rt_castObjectId rt) (server_bookSchema (rt_fullYear rt))
             idParam body s of
        (Inr None, s1) \<Rightarrow> (\<lparr> status = 404, json = Inl NotFound \<rparr>, s1)
      | (Inr (Some updated), s1) \<Rightarrow> (\<lparr> status = 200, json = Inr (Data updated) \<rparr>, s1)
      | (Inl error, s1) \<Rightarrow> (\<lparr> status = 400, json = Inl error \<rparr>, s1))"

definition patch_copies :: "runtime \<Rightarrow> string \<Rightarrow> real \<Rightarrow> store \<Rightarrow> response \<times> store" where
  \<comment> \<open>\<open>app.patch('/api/books/:id/copies')\<close>, for a body whose \<open>change\<close> is a number\<close>
  "patch_copies rt idParam change s =
     (case Book_findById (rt_castObjectId rt) idParam s of
        (Inl error, s1) \<Rightarrow> (\<lparr> status = 400, json = Inl error \<rparr>, s1)
      | (Inr None, s1) \<Rightarrow> (\<lparr> status = 404, json = Inl NotFound \<rparr>, s1)
      | (Inr (Some found), s1) \<Rightarrow>
          (let newCopies = availableCopies found + change
           in if newCopies < 0 then (\<lparr> status = 400, json = Inl InvalidOperation \<rparr>, s1)
              else
                (case save (server_bookSchema (rt_fullYear rt))
                        (found \<lparr> availableCopies := newCopies \<rparr>) s1 of
                   (Inr saved, s2) \<Rightarrow> (\<lparr> status = 200, json = Inr (Data saved) \<rparr>, s2)
                 | (Inl error, s2) \<Rightarrow> (\<lparr> status = 400, json = Inl error \<rparr>, s2))))"

definition delete_book :: "runtime \<Rightarrow> string \<Rightarrow> store \<Rightarrow> response \<times> store" where
  \<comment> \<open>\<open>app.delete('/api/books/:id')\<close>\<close>
  "delete_book rt idParam s =
     (case Book_findById (rt_castObjectId rt) idParam s of
        (Inl error, s1) \<Rightarrow> (\<lparr> status = 500, json = Inl error \<rparr>, s1)
      | (Inr None, s1) \<Rightarrow> (\<lparr> status = 404, json = Inl NotFound \<rparr>, s1)
      | (Inr (Some found), s1) \<Rightarrow>
          if availableCopies found > 0
          then (\<lparr> status = 400, json = Inl InvalidOperation \<rparr>, s1)
          else
            (case Book_findByIdAndDelete (rt_castObjectId rt) idParam s1 of
               (Inr removed, s2) \<Rightarrow> (\<lparr> status = 200, json = Inr Deleted \<rparr>, s2)
             | (Inl error, s2) \<Rightarrow> (\<lparr> status = 500, json = Inl error \<rparr>, s2)))"

definition post_seed :: "runtime \<Rightarrow> store \<Rightarrow> response \<times> store" where
  \<comment> \<open>\<open>app.post('/api/seed')\<close>\<close>
  "post_seed rt s =
     (case Book_deleteMany s of
        (Inl error, s1) \<Rightarrow> (\<lparr> status = 500, json = Inl error \<rparr>, s1)
      | (Inr u, s1) \<Rightarrow>
          (case Book_insertMany (server_bookSchema (rt_fullYear rt)) books s1 of
             (Inr result, s2) \<Rightarrow>
               (\<lparr> status = 200, json = Inr (Inserted (length result) result) \<rparr>, s2)
           | (Inl error, s2) \<Rightarrow> (\<lparr> status = 500, json = Inl error \<rparr>, s2)))"

section \<open>Script mode: the functions of library.js\<close>

text \<open>
  Each function logs and returns, or logs and rethrows what it caught; the console is not
  modelled.  The errors the functions throw themselves are \<open>NotFound\<close>
  (\<open>Book not found: ...\<close>) and \<open>InvalidOperation\<close> (\<open>Invalid update: ...\<close>,
  \<open>Invalid delete: ...\<close>).  A query on \<open>title\<close> casts its operand through the setters of
  the path.
\<close>

definition byTitle :: "schema \<Rightarrow> string \<Rightarrow> book \<Rightarrow> bool" where
  "byTitle sch t b = (title b = applySetters (title_type sch) t)"

definition insertBooks :: "real \<Rightarrow> store \<Rightarrow> (failure + book list) \<times> store" where
  "insertBooks fullYear s =
     (case Book_deleteMany s of
        (Inl error, s1) \<Rightarrow> (Inl error, s1)
      | (Inr u, s1) \<Rightarrow> Book_insertMany (library_bookSchema fullYear) books s1)"

definition getAllBooks :: "store \<Rightarrow> (failure + book list) \<times> store" where
  "getAllBooks s = Book_find (\<lambda>b. True) s"

definition getBooksAfter2015 :: "store \<Rightarrow> (failure + book list) \<times> store" where
  "getBooksAfter2015 s = Book_find (\<lambda>b. publishedYear b > 2015) s"

definition updateCopies :: "real \<Rightarrow> string \<Rightarrow> real \<Rightarrow> store \<Rightarrow> (failure + book) \<times> store" where
  "updateCopies fullYear t change s =
     (let sch = library_bookSchema fullYear
      in case Book_findOne (byTitle sch t) s of
           (Inl error, s1) \<Rightarrow> (Inl error, s1)
         | (Inr None, s1) \<Rightarrow> (Inl NotFound, s1)
         | (Inr (Some found), s1) \<Rightarrow>
             (let newCopies = availableCopies found + change
              in if newCopies < 0 then (Inl InvalidOperation, s1)
                 else save sch (found \<lparr> availableCopies := newCopies \<rparr>) s1))"

definition changeCategory :: "real \<Rightarrow> string \<Rightarrow> string \<Rightarrow> store \<Rightarrow> (failure + book) \<times> store" where
  "changeCategory fullYear t newCategory s =
     (let sch = library_bookSchema fullYear
      in case Book_findOne (byTitle sch t) s of
           (Inl error, s1) \<Rightarrow> (Inl error, s1)
         | (Inr None, s1) \<Rightarrow> (Inl NotFound, s1)
         | (Inr (Some found), s1) \<Rightarrow>
             save sch (found \<lparr> category := applySetters (category_type sch) newCategory \<rparr>) s1)"

definition deleteBookIfNoCopies :: "real \<Rightarrow> string \<Rightarrow> store \<Rightarrow> (failure + book) \<times> store" where
  \<comment> \<open>the value returned is the \<open>book\<close> of \<open>{ deleted: true, book }\<close>\<close>
  "deleteBookIfNoCopies fullYear t s =
     (let sch = library_bookSchema fullYear
      in case Book_findOne (byTitle sch t) s of
           (Inl error, s1) \<Rightarrow> (Inl error, s1)
         | (Inr None, s1) \<Rightarrow> (Inl NotFound, s1)
         | (Inr (Some found), s1) \<Rightarrow>
             if availableCopies found > 0 then (Inl InvalidOperation, s1)
             else
               (case Book_deleteOne (byTitle sch t) s1 of
                  (Inl error, s2) \<Rightarrow> (Inl error, s2)
                | (Inr u, s2) \<Rightarrow> (Inr found, s2)))"

section \<open>Path parameters\<close>

text \<open>
  A client writes a year into the path of a request as its decimal numeral.
\<close>

fun decimalDigits :: "nat \<Rightarrow> string" where
  "decimalDigits n =
     (if n < 10 then [char_of (48 + n)]
      else decimalDigits (n div 10) @ [char_of (48 + n mod 10)])"

definition decimal :: "int \<Rightarrow> string" where
  \<comment> \<open>the decimal numeral of an integer, as a client writes a year into the path\<close>
  "decimal y = (if y < 0 then CHR ''-'' # decimalDigits (nat (- y)) else decimalDigits (nat y))"

definition decimalDigit :: "char \<Rightarrow> bool" where
  "decimalDigit c = (\<exists>d < 10. c = char_of (48 + d :: nat))"

section \<open>Stored records\<close>

definition lookup :: "objectId \<Rightarrow> store \<Rightarrow> book option" where
  \<comment> \<open>the stored record with a given id\<close>
  "lookup i s = List.find (\<lambda>b. book_id b = i) (docs s)"

definition validBook :: "schema \<Rightarrow> book \<Rightarrow> bool" where
  \<comment> \<open>the document passes every validator of the schema\<close>
  "validBook sch b = (validatePaths sch (fieldsOf b) = [])"

definition validStore :: "schema \<Rightarrow> store \<Rightarrow> bool" where
  "validStore sch s = list_all (validBook sch) (docs s)"

definition uniqueIds :: "store \<Rightarrow> bool" where
  \<comment> \<open>the collection's index on the id, and ids generated in sequence\<close>
  "uniqueIds s = (distinct (map book_id (docs s)) \<and> list_all (\<lambda>b. book_id b < nextId s) (docs s))"

section \<open>Sample data\<close>

text \<open>
  A cast that accepts exactly the strings of 24 hexadecimal digits, a runtime started in
  2026, and a small collection.
\<close>

definition hexObjectId :: "string \<Rightarrow> objectId option" where
  "hexObjectId s =
     (if length s = 24 \<and> list_all (isRadixDigit 16) s then Some (digitsValue 16 s) else None)"

definition rt2026 :: runtime where
  "rt2026 = \<lparr> rt_fullYear = 2026, rt_castObjectId = hexObjectId \<rparr>"

definition dune :: book where
  "dune = \<lparr> book_id = 1, title = ''Dune'', author = ''Frank Herbert'', category = ''Fiction'',
            publishedYear = 1965, availableCopies = 3 \<rparr>"

definition educated :: book where
  "educated = \<lparr> book_id = 2, title = ''Educated'', author = ''Tara Westover'',
                category = ''Biography'', publishedYear = 2018, availableCopies = 0 \<rparr>"

definition shelf :: store where
  "shelf = \<lparr> docs = [dune, educated], nextId = 3, faults = [] \<rparr>"

definition idDune :: string where "idDune = ''000000000000000000000001''"
definition idEducated :: string where "idEducated = ''000000000000000000000002''"
definition idUnknown :: string where "idUnknown = ''000000000000000000000009''"






definition halfYear :: fields where
  "halfYear = obj ''Dune'' ''Frank Herbert'' ''Fiction'' (3931 / 2) 3"

definition halfCopy :: fields where
  "halfCopy = obj ''Dune'' ''Frank Herbert'' ''Fiction'' 1965 (5 / 2)"



section \<open>Basic facts\<close>

lemma roundTrip_no_fault: "faults s = [] \<Longrightarrow> roundTrip s = (True, s)"
  by (simp add: roundTrip_def)

lemma docs_roundTrip: "docs (snd (roundTrip s)) = docs s"
  by (simp add: roundTrip_def split: list.splits)

lemma Book_find_no_fault:
  "faults s = [] \<Longrightarrow> Book_find q s = (Inr (filter q (docs s)), s)"
  by (simp add: Book_find_def roundTrip_no_fault)

lemma Book_findOne_no_fault:
  "faults s = [] \<Longrightarrow> Book_findOne q s = (Inr (List.find q (docs s)), s)"
  by (simp add: Book_findOne_def roundTrip_no_fault)

lemma Book_findById_no_fault:
  "faults s = [] \<Longrightarrow> c idParam = Some i \<Longrightarrow> Book_findById c idParam s = (Inr (lookup i s), s)"
  by (simp add: Book_findById_def Book_findOne_no_fault lookup_def)

lemma save_no_fault:
  "faults s = [] \<Longrightarrow> validBook sch b \<Longrightarrow>
   save sch b s = (Inr b, s \<lparr> docs := updateFirst (\<lambda>d. book_id d = book_id b) (\<lambda>d. b) (docs s) \<rparr>)"
  by (simp add: save_def validBook_def roundTrip_no_fault)




lemma pathError_Nil: "pathError p r = [] \<longleftrightarrow> r = None"
  by (cases r) (simp_all add: pathError_def)

lemma validatePaths_Nil:
  "validatePaths sch f = [] \<longleftrightarrow>
     validateString (title_type sch) (body_title f) = None
     \<and> validateString (author_type sch) (body_author f) = None
     \<and> validateString (category_type sch) (body_category f) = None
     \<and> validateNumber (publishedYear_type sch) (body_publishedYear f) = None
     \<and> validateNumber (availableCopies_type sch) (body_availableCopies f) = None"
  by (simp add: validatePaths_def pathError_Nil)

lemma validBook_iff:
  "validBook sch b \<longleftrightarrow>
     validateString (title_type sch) (Some (title b)) = None
     \<and> validateString (author_type sch) (Some (author b)) = None
     \<and> validateString (category_type sch) (Some (category b)) = None
     \<and> validateNumber (publishedYear_type sch) (Some (publishedYear b)) = None
     \<and> validateNumber (availableCopies_type sch) (Some (availableCopies b)) = None"
  by (simp add: validBook_def validatePaths_Nil fieldsOf_def)

lemma server_copies_valid:
  "validateNumber (availableCopies_type (server_bookSchema fy)) (Some n) = None \<longleftrightarrow> 0 \<le> n"
  by (auto simp: validateNumber_def server_bookSchema_def)

lemma library_copies_valid:
  "validateNumber (availableCopies_type (library_bookSchema fy)) (Some n) = None
     \<longleftrightarrow> 0 \<le> n \<and> isInteger n"
  by (auto simp: validateNumber_def library_bookSchema_def)

lemma validBook_copies_update:
  "validBook sch b \<Longrightarrow> validateNumber (availableCopies_type sch) (Some n) = None
     \<Longrightarrow> validBook sch (b \<lparr> availableCopies := n \<rparr>)"
  by (simp add: validBook_iff)


lemma find_in_set: "List.find q ds = Some b \<Longrightarrow> b \<in> set ds \<and> q b"
  by (induction ds) (auto split: if_splits)




lemma hexObjectId_samples:
  "hexObjectId idDune = Some 1" "hexObjectId idEducated = Some 2"
  "hexObjectId idUnknown = Some 9" "hexObjectId ''dune'' = None"
  by (simp_all add: hexObjectId_def idDune_def idEducated_def idUnknown_def isRadixDigit_def
      digitValue_def digitsValue_def)

lemma cast_samples:
  "rt_castObjectId rt2026 idDune = Some 1" "rt_castObjectId rt2026 idEducated = Some 2"
  "rt_castObjectId rt2026 idUnknown = Some 9" "rt_castObjectId rt2026 ''dune'' = None"
  by (simp_all add: rt2026_def hexObjectId_samples)

lemma shelf_facts:
  "faults shelf = []" "docs shelf = [dune, educated]" "nextId shelf = 3" "uniqueIds shelf"
  "lookup 1 shelf = Some dune" "lookup 2 shelf = Some educated" "lookup 9 shelf = None"
  by (simp_all add: shelf_def uniqueIds_def lookup_def dune_def educated_def)

lemma trim_samples:
  "trim ''Dune'' = ''Dune''" "trim ''Educated'' = ''Educated''" "trim ''Missing'' = ''Missing''"
  "trim '' '' = []" "trim '' Science '' = ''Science''" "trim ''Frank Herbert'' = ''Frank Herbert''"
  by (simp_all add: trim_def isWhiteSpace_def)

lemma isInteger_numeral: "isInteger (numeral n)" "isInteger 0" "isInteger 1"
  by (simp_all add: isInteger_def)

lemma valid_samples:
  "validBook (server_bookSchema 2026) dune" "validBook (server_bookSchema 2026) educated"
  "validBook (library_bookSchema 2026) dune" "validBook (library_bookSchema 2026) educated"
  by (simp_all add: validBook_iff server_bookSchema_def library_bookSchema_def
      validateString_def validateNumber_def dune_def educated_def categories_def
      isInteger_numeral)


lemma parseInt_2015: "parseInt ''2015'' = Some 2015"
  by (simp add: parseInt_def isWhiteSpace_def isRadixDigit_def digitValue_def digitsValue_def)

lemma removeFirst_subset: "set (removeFirst q ds) \<subseteq> set ds"
  by (induction ds) auto








lemma validateString_server_title:
  "validateString (title_type (server_bookSchema fy)) (Some x) = None \<longleftrightarrow> x \<noteq> []"
  "validateString (author_type (server_bookSchema fy)) (Some x) = None \<longleftrightarrow> x \<noteq> []"
  by (simp_all add: validateString_def server_bookSchema_def)

lemma validateString_category:
  "validateString (category_type (server_bookSchema fy)) (Some x) = None \<longleftrightarrow> x \<in> set categories"
  "validateString (category_type (library_bookSchema fy)) (Some x) = None \<longleftrightarrow> x \<in> set categories"
  by (auto simp: validateString_def server_bookSchema_def library_bookSchema_def categories_def)

lemma validateNumber_server_year:
  "validateNumber (publishedYear_type (server_bookSchema fy)) (Some y) = None
     \<longleftrightarrow> 1000 \<le> y \<and> y \<le> fy"
  by (auto simp: validateNumber_def server_bookSchema_def)

lemma validateNumber_library_year:
  "validateNumber (publishedYear_type (library_bookSchema fy)) (Some y) = None
     \<longleftrightarrow> 1000 \<le> y \<and> y \<le> fy \<and> isInteger y"
  by (auto simp: validateNumber_def library_bookSchema_def)

lemma server_setters:
  "applySetters (title_type (server_bookSchema fy)) x = trim x"
  "applySetters (author_type (server_bookSchema fy)) x = trim x"
  "applySetters (category_type (server_bookSchema fy)) x = x"
  "applyDefault (publishedYear_type (server_bookSchema fy)) v = v"
  "applyDefault (availableCopies_type (server_bookSchema fy)) v
     = Some (case v of None \<Rightarrow> 1 | Some n \<Rightarrow> n)"
  by (simp_all add: applySetters_def applyDefault_def server_bookSchema_def split: option.splits)

lemma library_setters:
  "applySetters (title_type (library_bookSchema fy)) x = trim x"
  "applySetters (author_type (library_bookSchema fy)) x = trim x"
  "applySetters (category_type (library_bookSchema fy)) x = trim x"
  "applyDefault (publishedYear_type (library_bookSchema fy)) v = v"
  "applyDefault (availableCopies_type (library_bookSchema fy)) v
     = Some (case v of None \<Rightarrow> 1 | Some n \<Rightarrow> n)"
  by (simp_all add: applySetters_def applyDefault_def library_bookSchema_def split: option.splits)

lemma saveNew_no_fault:
  "faults s = [] \<Longrightarrow> validatePaths sch f = [] \<Longrightarrow> toBook i f = Some b \<Longrightarrow>
   saveNew sch i f s = (Inr b, s \<lparr> docs := docs s @ [b] \<rparr>)"
  by (simp add: saveNew_def roundTrip_no_fault)



lemma validateUpdate_Nil:
  "validateUpdate sch u = [] \<longleftrightarrow>
     (case body_title u of None \<Rightarrow> True
      | Some x \<Rightarrow> validateString (title_type sch) (Some x) = None)
     \<and> (case body_author u of None \<Rightarrow> True
        | Some x \<Rightarrow> validateString (author_type sch) (Some x) = None)
     \<and> (case body_category u of None \<Rightarrow> True
        | Some x \<Rightarrow> validateString (category_type sch) (Some x) = None)
     \<and> (case body_publishedYear u of None \<Rightarrow> True
        | Some x \<Rightarrow> validateNumber (publishedYear_type sch) (Some x) = None)
     \<and> (case body_availableCopies u of None \<Rightarrow> True
        | Some x \<Rightarrow> validateNumber (availableCopies_type sch) (Some x) = None)"
  by (simp add: validateUpdate_def pathError_Nil split: option.splits)

lemma validBook_applyUpdate:
  "validBook sch b \<Longrightarrow> validBook sch (applyUpdate u b) \<longleftrightarrow> validateUpdate sch u = []"
  by (simp add: validBook_iff validateUpdate_Nil applyUpdate_def split: option.splits)

lemma book_id_applyUpdate: "book_id (applyUpdate u b) = book_id b"
  by (simp add: applyUpdate_def)











lemma isInteger_half: "\<not> isInteger (3931 / 2)" "\<not> isInteger (5 / 2)" "\<not> isInteger (7 / 2)"
  by (simp_all add: isInteger_def)

lemma trim_fiction: "trim ''Fiction'' = ''Fiction''"
  by (simp add: trim_def isWhiteSpace_def)

lemma post_books_obj:
  assumes "faults s = []"
    and "validatePaths (server_bookSchema (rt_fullYear rt)) (obj (trim t) (trim a) c y n) = []"
  shows "post_books rt (obj t a c y n) s
         = (\<lparr> status = 201,
              json = Inr (Data \<lparr> book_id = nextId s, title = trim t, author = trim a,
                                 category = c, publishedYear = y, availableCopies = n \<rparr>) \<rparr>,
            s \<lparr> docs := docs s @ [\<lparr> book_id = nextId s, title = trim t, author = trim a,
                                     category = c, publishedYear = y, availableCopies = n \<rparr>],
                nextId := Suc (nextId s) \<rparr>)"
proof -
  let ?sch = "server_bookSchema (rt_fullYear rt)"
  have f: "castFields ?sch (obj t a c y n) = obj (trim t) (trim a) c y n"
    by (simp add: castFields_def obj_def server_setters)
  have tb: "toBook (nextId s) (obj (trim t) (trim a) c y n)
              = Some \<lparr> book_id = nextId s, title = trim t, author = trim a,
                       category = c, publishedYear = y, availableCopies = n \<rparr>"
    by (simp add: toBook_def obj_def)
  show ?thesis
    using saveNew_no_fault [of "s \<lparr> nextId := Suc (nextId s) \<rparr>" ?sch
        "obj (trim t) (trim a) c y n" "nextId s", OF _ assms(2) tb] assms(1)
    by (simp add: post_books_def newBook_def f Let_def)
qed

lemma validatePaths_obj:
  "validatePaths sch (obj t a c y n) = [] \<longleftrightarrow>
     validateString (title_type sch) (Some t) = None
     \<and> validateString (author_type sch) (Some a) = None
     \<and> validateString (category_type sch) (Some c) = None
     \<and> validateNumber (publishedYear_type sch) (Some y) = None
     \<and> validateNumber (availableCopies_type sch) (Some n) = None"
  by (simp add: validatePaths_Nil obj_def)



lemma Book_find_thrown: "fst (Book_find q s) = Inl e \<Longrightarrow> e = StoreError"
  by (auto simp: Book_find_def split: prod.splits if_splits)



























subsection \<open>parseInt reads a decimal numeral back\<close>

declare decimalDigits.simps [simp del]

lemma of_char_digit: "d < 10 \<Longrightarrow> of_char (char_of (48 + d :: nat)) = 48 + d"
  by (simp add: of_char_of)

lemma digitValue_digit: "d < 10 \<Longrightarrow> digitValue (char_of (48 + d :: nat)) = Some d"
  by (simp add: digitValue_def of_char_digit Let_def)

lemma decimalDigit_props:
  assumes "decimalDigit c"
  shows "isRadixDigit 10 c" and "\<not> isWhiteSpace c" and "c \<noteq> CHR ''-''" and "c \<noteq> CHR ''+''"
    and "c \<noteq> CHR ''x''" and "c \<noteq> CHR ''X''"
proof -
  from assms obtain d :: nat where d: "d < 10" "c = char_of (48 + d)"
    by (auto simp: decimalDigit_def)
  then have o: "of_char c = 48 + d" by (simp add: of_char_digit)
  from d show "isRadixDigit 10 c" by (simp add: isRadixDigit_def digitValue_digit)
  have "\<And>k. c = k \<Longrightarrow> of_char k = 48 + d" using o by simp
  then have n: "\<And>k. of_char k < (48::nat) \<or> of_char k > (57::nat) \<Longrightarrow> c \<noteq> k"
    using d(1) by force
  show "\<not> isWhiteSpace c"
    unfolding isWhiteSpace_def using n [of "CHR 0x09"] n [of "CHR 0x0A"] n [of "CHR 0x0B"]
      n [of "CHR 0x0C"] n [of "CHR 0x0D"] n [of "CHR 0x20"]
    by simp
  show "c \<noteq> CHR ''-''" using n [of "CHR ''-''"] by simp
  show "c \<noteq> CHR ''+''" using n [of "CHR ''+''"] by simp
  show "c \<noteq> CHR ''x''" using n [of "CHR ''x''"] by simp
  show "c \<noteq> CHR ''X''" using n [of "CHR ''X''"] by simp
qed

lemma decimalDigits_digits: "list_all decimalDigit (decimalDigits n) \<and> decimalDigits n \<noteq> []"
proof (induction n rule: decimalDigits.induct)
  case (1 n)
  show ?case
  proof (cases "n < 10")
    case True
    then show ?thesis
      by (subst (1 2) decimalDigits.simps) (auto simp: decimalDigit_def)
  next
    case False
    have "decimalDigit (char_of (48 + n mod 10))"
      unfolding decimalDigit_def by (rule exI [of _ "n mod 10"]) simp
    with False 1 show ?thesis
      by (subst (1 2) decimalDigits.simps) simp
  qed
qed

lemma digitsValue_snoc:
  "digitsValue r (ds @ [c]) = digitsValue r ds * r + (case digitValue c of None \<Rightarrow> 0 | Some d \<Rightarrow> d)"
  by (simp add: digitsValue_def)

lemma digitsValue_decimalDigits: "digitsValue 10 (decimalDigits n) = n"
proof (induction n rule: decimalDigits.induct)
  case (1 n)
  show ?case
  proof (cases "n < 10")
    case True
    then show ?thesis
      by (subst decimalDigits.simps) (simp add: digitsValue_def digitValue_digit)
  next
    case False
    with 1 show ?thesis
      by (subst decimalDigits.simps) (simp add: digitsValue_snoc digitValue_digit)
  qed
qed

lemma parseInt_digits:
  assumes "list_all decimalDigit ds" and "ds \<noteq> []"
  shows "parseInt ds = Some (int (digitsValue 10 ds))"
    and "parseInt (CHR ''-'' # ds) = Some (- int (digitsValue 10 ds))"
proof -
  from assms obtain c cs where ds: "ds = c # cs" by (cases ds) auto
  with assms have c: "decimalDigit c" and cs: "list_all decimalDigit cs" by simp_all
  have all: "takeWhile (isRadixDigit 10) ds = ds"
    using assms(1) by (auto simp: list_all_iff decimalDigit_props(1) takeWhile_eq_all_conv)
  have nohex: "(length ds \<ge> 2 \<and> hd ds = CHR ''0''
                 \<and> (hd (tl ds) = CHR ''x'' \<or> hd (tl ds) = CHR ''X'')) = False"
  proof (cases cs)
    case Nil
    with ds show ?thesis by simp
  next
    case (Cons k ks)
    with cs have "decimalDigit k" by simp
    from decimalDigit_props(5,6) [OF this] ds Cons show ?thesis by simp
  qed
  have w: "dropWhile isWhiteSpace ds = ds"
    using decimalDigit_props(2) [OF c] ds by simp
  have w': "dropWhile isWhiteSpace (CHR ''-'' # ds) = CHR ''-'' # ds"
    by (simp add: isWhiteSpace_def)
  from decimalDigit_props(3,4) [OF c] ds have h: "hd ds \<noteq> CHR ''-''" "hd ds \<noteq> CHR ''+''"
    by simp_all
  have s1: "(if ds \<noteq> [] \<and> (hd ds = CHR ''+'' \<or> hd ds = CHR ''-'') then tl ds else ds) = ds"
    using h by simp
  have neg: "(ds \<noteq> [] \<and> hd ds = CHR ''-'') = False"
    using h by simp
  show "parseInt ds = Some (int (digitsValue 10 ds))"
    unfolding parseInt_def w Let_def s1 neg nohex
    by (simp add: all assms(2))
  have s1': "(if CHR ''-'' # ds \<noteq> []
                 \<and> (hd (CHR ''-'' # ds) = CHR ''+'' \<or> hd (CHR ''-'' # ds) = CHR ''-'')
              then tl (CHR ''-'' # ds) else CHR ''-'' # ds) = ds"
    by simp
  have neg': "(CHR ''-'' # ds \<noteq> [] \<and> hd (CHR ''-'' # ds) = CHR ''-'') = True"
    by simp
  show "parseInt (CHR ''-'' # ds) = Some (- int (digitsValue 10 ds))"
    unfolding parseInt_def w' Let_def s1' neg' nohex
    by (simp add: all assms(2))
qed

lemma parseInt_decimal: "parseInt (decimal y) = Some y"
proof (cases "y < 0")
  case True
  with parseInt_digits(2) [of "decimalDigits (nat (- y))"] decimalDigits_digits [of "nat (- y)"]
  show ?thesis by (simp add: decimal_def digitsValue_decimalDigits)
next
  case False
  with parseInt_digits(1) [of "decimalDigits (nat y)"] decimalDigits_digits [of "nat y"]
  show ?thesis by (simp add: decimal_def digitsValue_decimalDigits)
qed

lemma decimal_2015: "decimal 2015 = ''2015''"
  by code_simp

section \<open>Invariants of the store\<close>

text \<open>
  What every operation of the model does to the stored documents, and from it: the routes
  of server.js keep every stored document valid for the schema of server.js, the
  functions of library.js keep every stored document valid for the schema of library.js,
  and both keep the ids unique.  The predicates that the theorems below assume of a stored
  record therefore hold in every state the program reaches from a store that has them.
\<close>

lemma list_all_updateFirst:
  "list_all P ds \<Longrightarrow> (\<And>d. P d \<Longrightarrow> P (g d)) \<Longrightarrow> list_all P (updateFirst q g ds)"
  by (induction ds) auto

lemma list_all_removeFirst: "list_all P ds \<Longrightarrow> list_all P (removeFirst q ds)"
  by (induction ds) auto

lemma toBook_fieldsOf: "toBook i f = Some b \<Longrightarrow> fieldsOf b = f \<and> book_id b = i"
  by (cases "body_title f"; cases "body_author f"; cases "body_category f";
      cases "body_publishedYear f"; cases "body_availableCopies f")
     (auto simp: toBook_def fieldsOf_def)

lemma toBook_valid: "validatePaths sch f = [] \<Longrightarrow> toBook i f = Some b \<Longrightarrow> validBook sch b"
  by (simp add: validBook_def toBook_fieldsOf)

lemma buildDocs_valid: "buildDocs sch i fs = Inr bs \<Longrightarrow> list_all (validBook sch) bs"
proof (induction fs arbitrary: i bs)
  case Nil
  then show ?case by simp
next
  case (Cons f fs)
  then show ?case
    by (auto simp: Let_def toBook_valid split: if_splits option.splits sum.splits)
qed

lemma buildDocs_ids:
  "buildDocs sch i fs = Inr bs \<Longrightarrow>
   distinct (map book_id bs) \<and> (\<forall>b \<in> set bs. i \<le> book_id b \<and> book_id b < i + length fs)"
proof (induction fs arbitrary: i bs)
  case Nil
  then show ?case by simp
next
  case (Cons f fs)
  from Cons.prems obtain b bs' where
    b: "toBook i (castFields sch f) = Some b" and r: "buildDocs sch (Suc i) fs = Inr bs'"
    and e: "bs = b # bs'"
    by (auto simp: Let_def split: if_splits option.splits sum.splits)
  from b have "book_id b = i" by (simp add: toBook_fieldsOf)
  with Cons.IH [OF r] e show ?case by fastforce
qed

lemma roundTrip_fields:
  "docs (snd (roundTrip s)) = docs s" "nextId (snd (roundTrip s)) = nextId s"
  by (simp_all add: roundTrip_def split: list.splits)

lemma roundTrip_cases:
  obtains ok s' where "roundTrip s = (ok, s')" "docs s' = docs s" "nextId s' = nextId s"
  using roundTrip_fields [of s] by (cases "roundTrip s") auto

subsection \<open>The documents after each operation of the model\<close>

lemma docs_Book_find: "docs (snd (Book_find q s)) = docs s" "nextId (snd (Book_find q s)) = nextId s"
  by (rule roundTrip_cases [of s]; simp add: Book_find_def)+

lemma docs_Book_findOne:
  "docs (snd (Book_findOne q s)) = docs s" "nextId (snd (Book_findOne q s)) = nextId s"
  by (rule roundTrip_cases [of s]; simp add: Book_findOne_def)+

lemma docs_Book_findById:
  "docs (snd (Book_findById c p s)) = docs s" "nextId (snd (Book_findById c p s)) = nextId s"
  by (simp_all add: Book_findById_def docs_Book_findOne split: option.splits)

lemma Book_findOne_found:
  "Book_findOne q s = (Inr (Some b), s1) \<Longrightarrow> b \<in> set (docs s) \<and> q b"
  by (rule roundTrip_cases [of s])
     (auto simp: Book_findOne_def dest: find_in_set split: if_splits)

lemma Book_findById_found:
  "Book_findById c p s = (Inr (Some b), s1) \<Longrightarrow> b \<in> set (docs s)"
  by (auto simp: Book_findById_def dest: Book_findOne_found split: option.splits)

lemma save_docs:
  "docs (snd (save sch b s)) = docs s
   \<or> (validBook sch b
      \<and> docs (snd (save sch b s)) = updateFirst (\<lambda>d. book_id d = book_id b) (\<lambda>d. b) (docs s))"
  "nextId (snd (save sch b s)) = nextId s"
  by (rule roundTrip_cases [of s]; simp add: save_def validBook_def Let_def)+

lemma saveNew_docs:
  "docs (snd (saveNew sch i f s)) = docs s
   \<or> (\<exists>b. toBook i f = Some b \<and> validBook sch b \<and> docs (snd (saveNew sch i f s)) = docs s @ [b])"
  "nextId (snd (saveNew sch i f s)) = nextId s"
  by (rule roundTrip_cases [of s];
      auto simp: saveNew_def Let_def toBook_valid split: option.splits)+

lemma Book_findByIdAndUpdate_docs:
  "docs (snd (Book_findByIdAndUpdate c sch p u s)) = docs s
   \<or> (\<exists>i. validateUpdate sch (castUpdate sch u) = []
        \<and> docs (snd (Book_findByIdAndUpdate c sch p u s))
            = updateFirst (\<lambda>d. book_id d = i) (applyUpdate (castUpdate sch u)) (docs s))"
  "nextId (snd (Book_findByIdAndUpdate c sch p u s)) = nextId s"
  by (rule roundTrip_cases [of s];
      auto simp: Book_findByIdAndUpdate_def Let_def split: option.splits)+

lemma Book_findByIdAndDelete_docs:
  "\<exists>q. docs (snd (Book_findByIdAndDelete c p s)) = docs s
      \<or> docs (snd (Book_findByIdAndDelete c p s)) = removeFirst q (docs s)"
  "nextId (snd (Book_findByIdAndDelete c p s)) = nextId s"
  by (rule roundTrip_cases [of s];
      auto simp: Book_findByIdAndDelete_def Let_def split: option.splits)+

lemma Book_deleteOne_docs:
  "docs (snd (Book_deleteOne q s)) = docs s
   \<or> docs (snd (Book_deleteOne q s)) = removeFirst q (docs s)"
  "nextId (snd (Book_deleteOne q s)) = nextId s"
  by (rule roundTrip_cases [of s]; simp add: Book_deleteOne_def Let_def)+

lemma Book_deleteMany_docs:
  "docs (snd (Book_deleteMany s)) = docs s \<or> docs (snd (Book_deleteMany s)) = []"
  "nextId (snd (Book_deleteMany s)) = nextId s"
  by (rule roundTrip_cases [of s]; simp add: Book_deleteMany_def Let_def)+

lemma Book_insertMany_docs:
  "docs (snd (Book_insertMany sch arr s)) = docs s
   \<or> (\<exists>bs. buildDocs sch (nextId s) arr = Inr bs
        \<and> docs (snd (Book_insertMany sch arr s)) = docs s @ bs)"
  "nextId (snd (Book_insertMany sch arr s)) = nextId s + length arr"
  by (rule roundTrip_cases [of "s \<lparr> nextId := nextId s + length arr \<rparr>"];
      auto simp: Book_insertMany_def Let_def split: sum.splits)+

subsection \<open>The store after each route and function\<close>

lemma snd_post_books:
  "snd (post_books rt body s)
     = snd (saveNew (server_bookSchema (rt_fullYear rt)) (nextId s)
              (castFields (server_bookSchema (rt_fullYear rt)) body)
              (s \<lparr> nextId := Suc (nextId s) \<rparr>))"
  by (simp add: post_books_def newBook_def Let_def split: prod.splits sum.splits)

lemma snd_get_books: "snd (get_books s) = snd (Book_find (\<lambda>b. True) s)"
  by (simp add: get_books_def split: prod.splits sum.splits)

lemma snd_get_books_category:
  "snd (get_books_category c s) = snd (Book_find (\<lambda>b. category b = c) s)"
  by (simp add: get_books_category_def split: prod.splits sum.splits)

lemma snd_get_books_year:
  "snd (get_books_year p s)
     = (case parseInt p of None \<Rightarrow> s
        | Some y \<Rightarrow> snd (Book_find (\<lambda>b. publishedYear b > of_int y) s))"
  by (simp add: get_books_year_def split: prod.splits sum.splits option.splits)

lemma snd_get_book: "snd (get_book rt p s) = snd (Book_findById (rt_castObjectId rt) p s)"
  by (simp add: get_book_def split: prod.splits sum.splits option.splits)

lemma snd_put_book:
  "snd (put_book rt p body s)
     = snd (Book_findByIdAndUpdate (rt_castObjectId rt) (server_bookSchema (rt_fullYear rt))
              p body s)"
  by (simp add: put_book_def split: prod.splits sum.splits option.splits)

lemma snd_patch_copies:
  "snd (patch_copies rt p change s)
     = (case Book_findById (rt_castObjectId rt) p s of
          (Inr (Some found), s1) \<Rightarrow>
            if availableCopies found + change < 0 then s1
            else snd (save (server_bookSchema (rt_fullYear rt))
                        (found \<lparr> availableCopies := availableCopies found + change \<rparr>) s1)
        | (r, s1) \<Rightarrow> s1)"
  by (simp add: patch_copies_def Let_def split: prod.splits sum.splits option.splits)

lemma snd_delete_book:
  "snd (delete_book rt p s)
     = (case Book_findById (rt_castObjectId rt) p s of
          (Inr (Some found), s1) \<Rightarrow>
            if availableCopies found > 0 then s1
            else snd (Book_findByIdAndDelete (rt_castObjectId rt) p s1)
        | (r, s1) \<Rightarrow> s1)"
  by (simp add: delete_book_def split: prod.splits sum.splits option.splits)

lemma snd_post_seed:
  "snd (post_seed rt s)
     = (case Book_deleteMany s of
          (Inr u, s1) \<Rightarrow> snd (Book_insertMany (server_bookSchema (rt_fullYear rt)) books s1)
        | (Inl e, s1) \<Rightarrow> s1)"
  by (simp add: post_seed_def split: prod.splits sum.splits)

lemma snd_insertBooks:
  "snd (insertBooks fy s)
     = (case Book_deleteMany s of
          (Inr u, s1) \<Rightarrow> snd (Book_insertMany (library_bookSchema fy) books s1)
        | (Inl e, s1) \<Rightarrow> s1)"
  by (simp add: insertBooks_def split: prod.splits sum.splits)

lemma snd_updateCopies:
  "snd (updateCopies fy t change s)
     = (case Book_findOne (byTitle (library_bookSchema fy) t) s of
          (Inr (Some found), s1) \<Rightarrow>
            if availableCopies found + change < 0 then s1
            else snd (save (library_bookSchema fy)
                        (found \<lparr> availableCopies := availableCopies found + change \<rparr>) s1)
        | (r, s1) \<Rightarrow> s1)"
  by (simp add: updateCopies_def Let_def split: prod.splits sum.splits option.splits)

lemma snd_changeCategory:
  "snd (changeCategory fy t c s)
     = (case Book_findOne (byTitle (library_bookSchema fy) t) s of
          (Inr (Some found), s1) \<Rightarrow>
            snd (save (library_bookSchema fy)
                   (found \<lparr> category := applySetters (category_type (library_bookSchema fy)) c \<rparr>)
                   s1)
        | (r, s1) \<Rightarrow> s1)"
  by (simp add: changeCategory_def Let_def split: prod.splits sum.splits option.splits)

lemma snd_deleteBookIfNoCopies:
  "snd (deleteBookIfNoCopies fy t s)
     = (case Book_findOne (byTitle (library_bookSchema fy) t) s of
          (Inr (Some found), s1) \<Rightarrow>
            if availableCopies found > 0 then s1
            else snd (Book_deleteOne (byTitle (library_bookSchema fy) t) s1)
        | (r, s1) \<Rightarrow> s1)"
  by (simp add: deleteBookIfNoCopies_def Let_def split: prod.splits sum.splits option.splits)

subsection \<open>Every write keeps the stored documents valid\<close>

lemma Book_find_valid: "validStore sch (snd (Book_find q s)) = validStore sch s"
  by (simp add: validStore_def docs_Book_find)

lemma Book_findOne_valid: "validStore sch (snd (Book_findOne q s)) = validStore sch s"
  by (simp add: validStore_def docs_Book_findOne)

lemma Book_findById_valid: "validStore sch (snd (Book_findById c p s)) = validStore sch s"
  by (simp add: validStore_def docs_Book_findById)

lemma save_valid: "validStore sch s \<Longrightarrow> validStore sch (snd (save sch b s))"
  using save_docs(1) [of sch b s]
  by (auto simp: validStore_def intro: list_all_updateFirst)

lemma saveNew_valid: "validStore sch s \<Longrightarrow> validStore sch (snd (saveNew sch i f s))"
  using saveNew_docs(1) [of sch i f s]
  by (auto simp: validStore_def)

lemma Book_findByIdAndUpdate_valid:
  assumes "validStore sch s"
  shows "validStore sch (snd (Book_findByIdAndUpdate c sch p u s))"
proof -
  from Book_findByIdAndUpdate_docs(1) [of c sch p u s]
  consider "docs (snd (Book_findByIdAndUpdate c sch p u s)) = docs s"
    | i where "validateUpdate sch (castUpdate sch u) = []"
        "docs (snd (Book_findByIdAndUpdate c sch p u s))
           = updateFirst (\<lambda>d. book_id d = i) (applyUpdate (castUpdate sch u)) (docs s)"
    by blast
  then show ?thesis
  proof cases
    case 1
    with assms show ?thesis by (simp add: validStore_def)
  next
    case 2
    have "list_all (validBook sch)
            (updateFirst (\<lambda>d. book_id d = i) (applyUpdate (castUpdate sch u)) (docs s))"
      using assms 2(1)
      by (intro list_all_updateFirst) (simp_all add: validStore_def validBook_applyUpdate)
    with 2(2) show ?thesis by (simp add: validStore_def)
  qed
qed

lemma Book_findByIdAndDelete_valid:
  "validStore sch s \<Longrightarrow> validStore sch (snd (Book_findByIdAndDelete c p s))"
  using Book_findByIdAndDelete_docs(1) [of c p s]
  by (auto simp: validStore_def intro: list_all_removeFirst)

lemma Book_deleteOne_valid: "validStore sch s \<Longrightarrow> validStore sch (snd (Book_deleteOne q s))"
  using Book_deleteOne_docs(1) [of q s]
  by (auto simp: validStore_def intro: list_all_removeFirst)

lemma Book_deleteMany_valid: "validStore sch s \<Longrightarrow> validStore sch (snd (Book_deleteMany s))"
  using Book_deleteMany_docs(1) [of s]
  by (auto simp: validStore_def)

lemma Book_insertMany_valid:
  "validStore sch s \<Longrightarrow> validStore sch (snd (Book_insertMany sch arr s))"
  using Book_insertMany_docs(1) [of sch arr s]
  by (auto simp: validStore_def dest: buildDocs_valid)

lemma service_keeps_schema:
  assumes "validStore (server_bookSchema (rt_fullYear rt)) s"
  shows "validStore (server_bookSchema (rt_fullYear rt)) (snd (post_books rt body s))"
    and "validStore (server_bookSchema (rt_fullYear rt)) (snd (get_books s))"
    and "validStore (server_bookSchema (rt_fullYear rt)) (snd (get_books_category categoryParam s))"
    and "validStore (server_bookSchema (rt_fullYear rt)) (snd (get_books_year yearParam s))"
    and "validStore (server_bookSchema (rt_fullYear rt)) (snd (get_book rt idParam s))"
    and "validStore (server_bookSchema (rt_fullYear rt)) (snd (put_book rt idParam body s))"
    and "validStore (server_bookSchema (rt_fullYear rt)) (snd (patch_copies rt idParam change s))"
    and "validStore (server_bookSchema (rt_fullYear rt)) (snd (delete_book rt idParam s))"
    and "validStore (server_bookSchema (rt_fullYear rt)) (snd (post_seed rt s))"
proof -
  let ?sch = "server_bookSchema (rt_fullYear rt)"
  have n: "validStore ?sch (s \<lparr> nextId := Suc (nextId s) \<rparr>)"
    using assms by (simp add: validStore_def)
  show "validStore ?sch (snd (post_books rt body s))"
    unfolding snd_post_books by (rule saveNew_valid [OF n])
  show "validStore ?sch (snd (get_books s))"
    using assms by (simp add: snd_get_books Book_find_valid)
  show "validStore ?sch (snd (get_books_category categoryParam s))"
    using assms by (simp add: snd_get_books_category Book_find_valid)
  show "validStore ?sch (snd (get_books_year yearParam s))"
    using assms by (simp add: snd_get_books_year Book_find_valid split: option.splits)
  show "validStore ?sch (snd (get_book rt idParam s))"
    using assms by (simp add: snd_get_book Book_findById_valid)
  show "validStore ?sch (snd (put_book rt idParam body s))"
    using assms by (simp add: snd_put_book Book_findByIdAndUpdate_valid)
  obtain r s1 where f: "Book_findById (rt_castObjectId rt) idParam s = (r, s1)"
    by (cases "Book_findById (rt_castObjectId rt) idParam s")
  with Book_findById_valid [of ?sch "rt_castObjectId rt" idParam s] assms
  have v1: "validStore ?sch s1" by simp
  show "validStore ?sch (snd (patch_copies rt idParam change s))"
    using v1 by (simp add: snd_patch_copies f save_valid split: sum.splits option.splits)
  show "validStore ?sch (snd (delete_book rt idParam s))"
    using v1
    by (simp add: snd_delete_book f Book_findByIdAndDelete_valid split: sum.splits option.splits)
  obtain r2 s2 where d: "Book_deleteMany s = (r2, s2)" by (cases "Book_deleteMany s")
  with Book_deleteMany_valid [OF assms] have v2: "validStore ?sch s2" by simp
  show "validStore ?sch (snd (post_seed rt s))"
    using v2 by (simp add: snd_post_seed d Book_insertMany_valid split: sum.splits)
qed

lemma script_keeps_schema:
  assumes "validStore (library_bookSchema fy) s"
  shows "validStore (library_bookSchema fy) (snd (insertBooks fy s))"
    and "validStore (library_bookSchema fy) (snd (getAllBooks s))"
    and "validStore (library_bookSchema fy) (snd (getBooksAfter2015 s))"
    and "validStore (library_bookSchema fy) (snd (updateCopies fy t change s))"
    and "validStore (library_bookSchema fy) (snd (changeCategory fy t newCategory s))"
    and "validStore (library_bookSchema fy) (snd (deleteBookIfNoCopies fy t s))"
proof -
  let ?sch = "library_bookSchema fy"
  obtain r2 s2 where d: "Book_deleteMany s = (r2, s2)" by (cases "Book_deleteMany s")
  with Book_deleteMany_valid [OF assms] have v2: "validStore ?sch s2" by simp
  show "validStore ?sch (snd (insertBooks fy s))"
    using v2 by (simp add: snd_insertBooks d Book_insertMany_valid split: sum.splits)
  show "validStore ?sch (snd (getAllBooks s))"
    using assms by (simp add: getAllBooks_def Book_find_valid)
  show "validStore ?sch (snd (getBooksAfter2015 s))"
    using assms by (simp add: getBooksAfter2015_def Book_find_valid)
  obtain r s1 where f: "Book_findOne (byTitle ?sch t) s = (r, s1)"
    by (cases "Book_findOne (byTitle ?sch t) s")
  with Book_findOne_valid [of ?sch "byTitle ?sch t" s] assms
  have v1: "validStore ?sch s1" by simp
  show "validStore ?sch (snd (updateCopies fy t change s))"
    using v1 by (simp add: snd_updateCopies f save_valid split: sum.splits option.splits)
  show "validStore ?sch (snd (changeCategory fy t newCategory s))"
    using v1 by (simp add: snd_changeCategory f save_valid split: sum.splits option.splits)
  show "validStore ?sch (snd (deleteBookIfNoCopies fy t s))"
    using v1
    by (simp add: snd_deleteBookIfNoCopies f Book_deleteOne_valid split: sum.splits option.splits)
qed

lemma validStore_server_bounds:
  "validStore (server_bookSchema fy) s \<Longrightarrow>
   list_all (\<lambda>b. 0 \<le> availableCopies b \<and> category b \<in> set categories
                \<and> 1000 \<le> publishedYear b \<and> publishedYear b \<le> fy
                \<and> title b \<noteq> [] \<and> author b \<noteq> []) (docs s)"
  by (simp add: validStore_def list_all_iff validBook_iff validateString_server_title
      validateString_category validateNumber_server_year server_copies_valid)

lemma validateString_library_title:
  "validateString (title_type (library_bookSchema fy)) (Some x) = None \<longleftrightarrow> x \<noteq> []"
  "validateString (author_type (library_bookSchema fy)) (Some x) = None \<longleftrightarrow> x \<noteq> []"
  by (auto simp: validateString_def library_bookSchema_def)

lemma validStore_library_bounds:
  "validStore (library_bookSchema fy) s \<Longrightarrow>
   list_all (\<lambda>b. 0 \<le> availableCopies b \<and> isInteger (availableCopies b)
                \<and> category b \<in> set categories
                \<and> 1000 \<le> publishedYear b \<and> publishedYear b \<le> fy \<and> isInteger (publishedYear b)
                \<and> title b \<noteq> [] \<and> author b \<noteq> []) (docs s)"
  by (simp add: validStore_def list_all_iff validBook_iff validateString_library_title
      validateString_category validateNumber_library_year library_copies_valid)

subsection \<open>Every write keeps the ids unique\<close>

lemma uniqueIds_iff:
  "uniqueIds s \<longleftrightarrow>
     distinct (map book_id (docs s)) \<and> (\<forall>i \<in> set (map book_id (docs s)). i < nextId s)"
  by (auto simp: uniqueIds_def list_all_iff)

lemma ids_updateFirst:
  "(\<And>d. q d \<Longrightarrow> book_id (g d) = book_id d) \<Longrightarrow>
   map book_id (updateFirst q g ds) = map book_id ds"
  by (induction ds) auto

lemma ids_removeFirst:
  "distinct (map book_id ds) \<Longrightarrow>
   distinct (map book_id (removeFirst q ds)) \<and> set (removeFirst q ds) \<subseteq> set ds"
  by (induction ds) (auto dest: subsetD [OF removeFirst_subset])

lemma uniqueIds_same:
  "docs s' = docs s \<Longrightarrow> nextId s' = nextId s \<Longrightarrow> uniqueIds s \<Longrightarrow> uniqueIds s'"
  by (simp add: uniqueIds_def)

lemma uniqueIds_removed:
  assumes "docs s' = removeFirst q (docs s)" and "nextId s' = nextId s" and "uniqueIds s"
  shows "uniqueIds s'"
proof -
  from assms(3) have d: "distinct (map book_id (docs s))" by (simp add: uniqueIds_def)
  from ids_removeFirst [OF d, of q] assms show ?thesis
    by (auto simp: uniqueIds_def list_all_iff)
qed

lemma Book_find_unique: "uniqueIds s \<Longrightarrow> uniqueIds (snd (Book_find q s))"
  by (rule uniqueIds_same) (simp_all add: docs_Book_find)

lemma Book_findOne_unique: "uniqueIds s \<Longrightarrow> uniqueIds (snd (Book_findOne q s))"
  by (rule uniqueIds_same) (simp_all add: docs_Book_findOne)

lemma Book_findById_unique: "uniqueIds s \<Longrightarrow> uniqueIds (snd (Book_findById c p s))"
  by (rule uniqueIds_same) (simp_all add: docs_Book_findById)

lemma save_unique:
  assumes "uniqueIds s"
  shows "uniqueIds (snd (save sch b s))"
proof -
  have "map book_id (docs (snd (save sch b s))) = map book_id (docs s)"
    using save_docs(1) [of sch b s]
      ids_updateFirst [of "\<lambda>d. book_id d = book_id b" "\<lambda>d. b" "docs s"]
    by auto
  with assms save_docs(2) [of sch b s] show ?thesis
    by (simp add: uniqueIds_iff)
qed

lemma saveNew_unique:
  assumes "uniqueIds s"
  shows "uniqueIds (snd (saveNew sch (nextId s) f (s \<lparr> nextId := Suc (nextId s) \<rparr>)))"
proof -
  let ?s1 = "s \<lparr> nextId := Suc (nextId s) \<rparr>"
  let ?s2 = "snd (saveNew sch (nextId s) f ?s1)"
  have n: "nextId ?s2 = Suc (nextId s)" by (simp add: saveNew_docs)
  from saveNew_docs(1) [of sch "nextId s" f ?s1]
  consider "docs ?s2 = docs s"
    | b where "toBook (nextId s) f = Some b" "docs ?s2 = docs s @ [b]"
    by auto
  then show ?thesis
  proof cases
    case 1
    with assms n show ?thesis by (auto simp: uniqueIds_iff)
  next
    case 2
    from 2(1) have "book_id b = nextId s" by (simp add: toBook_fieldsOf)
    with assms n 2(2) show ?thesis by (auto simp: uniqueIds_iff)
  qed
qed

lemma Book_findByIdAndUpdate_unique:
  assumes "uniqueIds s"
  shows "uniqueIds (snd (Book_findByIdAndUpdate c sch p u s))"
proof -
  have "map book_id (docs (snd (Book_findByIdAndUpdate c sch p u s))) = map book_id (docs s)"
    using Book_findByIdAndUpdate_docs(1) [of c sch p u s]
    by (auto simp: ids_updateFirst book_id_applyUpdate)
  with assms Book_findByIdAndUpdate_docs(2) [of c sch p u s] show ?thesis
    by (simp add: uniqueIds_iff)
qed

lemma Book_findByIdAndDelete_unique:
  assumes "uniqueIds s"
  shows "uniqueIds (snd (Book_findByIdAndDelete c p s))"
proof -
  from Book_findByIdAndDelete_docs(1) [of c p s] obtain q where
    "docs (snd (Book_findByIdAndDelete c p s)) = docs s
     \<or> docs (snd (Book_findByIdAndDelete c p s)) = removeFirst q (docs s)"
    by blast
  then show ?thesis
    using assms Book_findByIdAndDelete_docs(2) [of c p s]
    by (auto intro: uniqueIds_same uniqueIds_removed)
qed

lemma Book_deleteOne_unique:
  assumes "uniqueIds s"
  shows "uniqueIds (snd (Book_deleteOne q s))"
  using Book_deleteOne_docs [of q s] assms
  by (auto intro: uniqueIds_same uniqueIds_removed)

lemma Book_deleteMany_unique:
  assumes "uniqueIds s"
  shows "uniqueIds (snd (Book_deleteMany s))"
  using Book_deleteMany_docs [of s] assms
  by (auto simp: uniqueIds_def)

lemma Book_insertMany_unique:
  assumes "uniqueIds s"
  shows "uniqueIds (snd (Book_insertMany sch arr s))"
proof -
  let ?s' = "snd (Book_insertMany sch arr s)"
  have n: "nextId ?s' = nextId s + length arr" by (simp add: Book_insertMany_docs)
  from Book_insertMany_docs(1) [of sch arr s]
  consider "docs ?s' = docs s"
    | bs where "buildDocs sch (nextId s) arr = Inr bs" "docs ?s' = docs s @ bs"
    by auto
  then show ?thesis
  proof cases
    case 1
    with assms n show ?thesis by (auto simp: uniqueIds_iff)
  next
    case 2
    from buildDocs_ids [OF 2(1)] assms n 2(2) show ?thesis
      by (fastforce simp: uniqueIds_iff)
  qed
qed

lemma service_keeps_ids_unique:
  assumes "uniqueIds s"
  shows "uniqueIds (snd (post_books rt body s))"
    and "uniqueIds (snd (get_books s))"
    and "uniqueIds (snd (get_books_category categoryParam s))"
    and "uniqueIds (snd (get_books_year yearParam s))"
    and "uniqueIds (snd (get_book rt idParam s))"
    and "uniqueIds (snd (put_book rt idParam body s))"
    and "uniqueIds (snd (patch_copies rt idParam change s))"
    and "uniqueIds (snd (delete_book rt idParam s))"
    and "uniqueIds (snd (post_seed rt s))"
proof -
  show "uniqueIds (snd (post_books rt body s))"
    unfolding snd_post_books by (rule saveNew_unique [OF assms])
  show "uniqueIds (snd (get_books s))"
    using assms by (simp add: snd_get_books Book_find_unique)
  show "uniqueIds (snd (get_books_category categoryParam s))"
    using assms by (simp add: snd_get_books_category Book_find_unique)
  show "uniqueIds (snd (get_books_year yearParam s))"
    using assms by (simp add: snd_get_books_year Book_find_unique split: option.splits)
  show "uniqueIds (snd (get_book rt idParam s))"
    using assms by (simp add: snd_get_book Book_findById_unique)
  show "uniqueIds (snd (put_book rt idParam body s))"
    using assms by (simp add: snd_put_book Book_findByIdAndUpdate_unique)
  obtain r s1 where f: "Book_findById (rt_castObjectId rt) idParam s = (r, s1)"
    by (cases "Book_findById (rt_castObjectId rt) idParam s")
  with Book_findById_unique [OF assms, of "rt_castObjectId rt" idParam]
  have u1: "uniqueIds s1" by simp
  show "uniqueIds (snd (patch_copies rt idParam change s))"
    using u1 by (simp add: snd_patch_copies f save_unique split: sum.splits option.splits)
  show "uniqueIds (snd (delete_book rt idParam s))"
    using u1
    by (simp add: snd_delete_book f Book_findByIdAndDelete_unique
        split: sum.splits option.splits)
  obtain r2 s2 where d: "Book_deleteMany s = (r2, s2)" by (cases "Book_deleteMany s")
  with Book_deleteMany_unique [OF assms] have u2: "uniqueIds s2" by simp
  show "uniqueIds (snd (post_seed rt s))"
    using u2 by (simp add: snd_post_seed d Book_insertMany_unique split: sum.splits)
qed

lemma script_keeps_ids_unique:
  assumes "uniqueIds s"
  shows "uniqueIds (snd (insertBooks fy s))"
    and "uniqueIds (snd (getAllBooks s))"
    and "uniqueIds (snd (getBooksAfter2015 s))"
    and "uniqueIds (snd (updateCopies fy t change s))"
    and "uniqueIds (snd (changeCategory fy t newCategory s))"
    and "uniqueIds (snd (deleteBookIfNoCopies fy t s))"
proof -
  let ?sch = "library_bookSchema fy"
  obtain r2 s2 where d: "Book_deleteMany s = (r2, s2)" by (cases "Book_deleteMany s")
  with Book_deleteMany_unique [OF assms] have u2: "uniqueIds s2" by simp
  show "uniqueIds (snd (insertBooks fy s))"
    using u2 by (simp add: snd_insertBooks d Book_insertMany_unique split: sum.splits)
  show "uniqueIds (snd (getAllBooks s))"
    using assms by (simp add: getAllBooks_def Book_find_unique)
  show "uniqueIds (snd (getBooksAfter2015 s))"
    using assms by (simp add: getBooksAfter2015_def Book_find_unique)
  obtain r s1 where f: "Book_findOne (byTitle ?sch t) s = (r, s1)"
    by (cases "Book_findOne (byTitle ?sch t) s")
  with Book_findOne_unique [OF assms, of "byTitle ?sch t"]
  have u1: "uniqueIds s1" by simp
  show "uniqueIds (snd (updateCopies fy t change s))"
    using u1 by (simp add: snd_updateCopies f save_unique split: sum.splits option.splits)
  show "uniqueIds (snd (changeCategory fy t newCategory s))"
    using u1 by (simp add: snd_changeCategory f save_unique split: sum.splits option.splits)
  show "uniqueIds (snd (deleteBookIfNoCopies fy t s))"
    using u1
    by (simp add: snd_deleteBookIfNoCopies f Book_deleteOne_unique split: sum.splits option.splits)
qed

section \<open>Properties\<close>

text \<open>
  C1.  In service mode a stored availableCopies need not be an integer: the create route
  stores 2.5 copies, and the copies route adds a change of 0.5 to 3 copies and stores
  3.5, both with success.  The schema of server.js declares the minimum 0 but not the
  integer validator that the schema of library.js declares, which refuses the same
  fields on the availableCopies path.
\<close>

theorem stored_copies_not_integer:
  "\<not> isInteger (5 / 2) \<and> \<not> isInteger (7 / 2)
   \<and> post_books rt2026 halfCopy shelf
       = (\<lparr> status = 201,
            json = Inr (Data \<lparr> book_id = 3, title = ''Dune'', author = ''Frank Herbert'',
                               category = ''Fiction'', publishedYear = 1965,
                               availableCopies = 5 / 2 \<rparr>) \<rparr>,
          shelf \<lparr> docs := [dune, educated,
                            \<lparr> book_id = 3, title = ''Dune'', author = ''Frank Herbert'',
                              category = ''Fiction'', publishedYear = 1965,
                              availableCopies = 5 / 2 \<rparr>],
                  nextId := 4 \<rparr>)
   \<and> patch_copies rt2026 idDune (1 / 2) shelf
       = (\<lparr> status = 200, json = Inr (Data (dune \<lparr> availableCopies := 7 / 2 \<rparr>)) \<rparr>,
          shelf \<lparr> docs := [dune \<lparr> availableCopies := 7 / 2 \<rparr>, educated] \<rparr>)
   \<and> validatePaths (library_bookSchema 2026) (castFields (library_bookSchema 2026) halfCopy)
       = [(AvailableCopies, IntegerValidator)]"
proof -
  have v: "validatePaths (server_bookSchema (rt_fullYear rt2026))
             (obj (trim ''Dune'') (trim ''Frank Herbert'') ''Fiction'' 1965 (5 / 2)) = []"
    by (simp add: validatePaths_obj validateString_server_title validateString_category
        validateNumber_server_year server_copies_valid trim_samples rt2026_def)
       (simp add: categories_def)
  have l: "validatePaths (library_bookSchema 2026) (castFields (library_bookSchema 2026) halfCopy)
             = [(AvailableCopies, IntegerValidator)]"
  proof -
    have "castFields (library_bookSchema 2026) halfCopy = halfCopy"
      by (simp add: halfCopy_def castFields_def obj_def library_setters trim_samples trim_fiction)
    then show ?thesis
      by (simp add: halfCopy_def obj_def validatePaths_def pathError_def validateString_def
          validateNumber_def library_bookSchema_def categories_def isInteger_def)
  qed
  have c: "availableCopies dune + 1 / 2 = 7 / 2" by (simp add: dune_def)
  have w: "validBook (server_bookSchema (rt_fullYear rt2026)) (dune \<lparr> availableCopies := 7 / 2 \<rparr>)"
    using valid_samples(1)
    by (intro validBook_copies_update) (simp_all add: rt2026_def server_copies_valid)
  have u: "updateFirst (\<lambda>d. book_id d = book_id dune) (\<lambda>d. dune \<lparr> availableCopies := 7 / 2 \<rparr>)
             (docs shelf) = [dune \<lparr> availableCopies := 7 / 2 \<rparr>, educated]"
    by (simp add: shelf_facts(2))
  have p: "patch_copies rt2026 idDune (1 / 2) shelf
       = (\<lparr> status = 200, json = Inr (Data (dune \<lparr> availableCopies := 7 / 2 \<rparr>)) \<rparr>,
          shelf \<lparr> docs := [dune \<lparr> availableCopies := 7 / 2 \<rparr>, educated] \<rparr>)"
    using shelf_facts(5)
    by (simp add: patch_copies_def
        Book_findById_no_fault [of shelf "rt_castObjectId rt2026" idDune 1,
          OF shelf_facts(1) cast_samples(1)]
        c Let_def save_no_fault [OF shelf_facts(1) w] u)
  from post_books_obj [OF shelf_facts(1) v] l p isInteger_half show ?thesis
    by (simp add: halfCopy_def shelf_facts trim_samples)
qed
















text \<open>
  C7.  The create route of server.js accepts a publishedYear that is not an integer: its
  schema declares the range but not the integer validator that the schema of library.js
  declares.  The request below, with the year 1965.5, is answered 201 and stored; the
  script's schema refuses the same fields on the publishedYear path.
\<close>

theorem create_accepts_fractional_year:
  "\<not> isInteger (3931 / 2)
   \<and> post_books rt2026 halfYear shelf
       = (\<lparr> status = 201,
            json = Inr (Data \<lparr> book_id = 3, title = ''Dune'', author = ''Frank Herbert'',
                               category = ''Fiction'', publishedYear = 3931 / 2,
                               availableCopies = 3 \<rparr>) \<rparr>,
          shelf \<lparr> docs := [dune, educated,
                            \<lparr> book_id = 3, title = ''Dune'', author = ''Frank Herbert'',
                              category = ''Fiction'', publishedYear = 3931 / 2,
                              availableCopies = 3 \<rparr>],
                  nextId := 4 \<rparr>)
   \<and> validatePaths (library_bookSchema 2026) (castFields (library_bookSchema 2026) halfYear)
       = [(PublishedYear, IntegerValidator)]"
proof -
  have v: "validatePaths (server_bookSchema (rt_fullYear rt2026))
             (obj (trim ''Dune'') (trim ''Frank Herbert'') ''Fiction'' (3931 / 2) 3) = []"
    by (simp add: validatePaths_obj validateString_server_title validateString_category
        validateNumber_server_year server_copies_valid trim_samples rt2026_def)
       (simp add: categories_def)
  have l: "validatePaths (library_bookSchema 2026) (castFields (library_bookSchema 2026) halfYear)
             = [(PublishedYear, IntegerValidator)]"
  proof -
    have "castFields (library_bookSchema 2026) halfYear = halfYear"
      by (simp add: halfYear_def castFields_def obj_def library_setters trim_samples trim_fiction)
    then show ?thesis
      by (simp add: halfYear_def obj_def validatePaths_def pathError_def validateString_def
          validateNumber_def library_bookSchema_def categories_def isInteger_def)
  qed
  from post_books_obj [OF shelf_facts(1) v] l isInteger_half(1) show ?thesis
    by (simp add: halfYear_def shelf_facts trim_samples)
qed

text \<open>
  C8.  On a store that answers, the route that lists by year returns, for the year its
  parameter parses to, exactly the stored books whose publishedYear is strictly greater:
  the result is the stored list filtered by that test, so every such book is in it and no
  other book is.  Every integer year is reached by its decimal numeral.  The script's
  \<open>getBooksAfter2015\<close> does the same for 2015.  Neither sorts.
\<close>

theorem list_by_year_after_exact:
  assumes "faults s = []"
  shows "(\<forall>y. parseInt yearParam = Some y \<longrightarrow>
            (\<exists>found. get_books_year yearParam s
                       = (\<lparr> status = 200, json = Inr (DataList found) \<rparr>, s)
               \<and> found = filter (\<lambda>b. of_int y < publishedYear b) (docs s)
               \<and> (\<forall>b. b \<in> set found \<longleftrightarrow> b \<in> set (docs s) \<and> of_int y < publishedYear b)))
         \<and> (\<forall>y. \<exists>found. get_books_year (decimal y) s
                            = (\<lparr> status = 200, json = Inr (DataList found) \<rparr>, s)
               \<and> found = filter (\<lambda>b. of_int y < publishedYear b) (docs s)
               \<and> (\<forall>b. b \<in> set found \<longleftrightarrow> b \<in> set (docs s) \<and> of_int y < publishedYear b))
         \<and> (\<exists>found. getBooksAfter2015 s = (Inr found, s)
               \<and> found = filter (\<lambda>b. 2015 < publishedYear b) (docs s)
               \<and> (\<forall>b. b \<in> set found \<longleftrightarrow> b \<in> set (docs s) \<and> 2015 < publishedYear b))"
  using assms
  by (simp add: get_books_year_def getBooksAfter2015_def Book_find_no_fault parseInt_decimal)

theorem list_by_year_after_exact_witness:
  "faults shelf = [] \<and> parseInt ''2015'' = Some 2015
   \<and> get_books_year ''2015'' shelf = (\<lparr> status = 200, json = Inr (DataList [educated]) \<rparr>, shelf)
   \<and> decimal 2015 = ''2015''
   \<and> getBooksAfter2015 shelf = (Inr [educated], shelf)"
proof -
  have f: "faults shelf = []" by (simp add: shelf_def)
  have d: "filter (\<lambda>b. 2015 < publishedYear b) (docs shelf) = [educated]"
    by (simp add: shelf_def dune_def educated_def)
  from list_by_year_after_exact [OF f, of "''2015''"] parseInt_2015
  have "get_books_year ''2015'' shelf
          = (\<lparr> status = 200, json = Inr (DataList (filter (\<lambda>b. of_int 2015 < publishedYear b) (docs shelf))) \<rparr>, shelf)"
    by blast
  moreover from list_by_year_after_exact [OF f, of "''2015''"]
  have "getBooksAfter2015 shelf = (Inr (filter (\<lambda>b. 2015 < publishedYear b) (docs shelf)), shelf)"
    by blast
  ultimately show ?thesis using f d parseInt_2015 decimal_2015 by simp
qed




text \<open>
  C10.  In service mode the route that reads one book answers 404 only when the id
  parameter is cast to an ObjectId and no stored document has that ObjectId.  When the
  cast rejects the parameter the lookup throws before the database is asked, and the route
  answers 500 with the cast error and leaves the store as it was.
\<close>

theorem get_book_404_only_wellformed:
  "(status (fst (get_book rt idParam s)) = 404 \<longrightarrow>
      (\<exists>i. rt_castObjectId rt idParam = Some i \<and> (\<forall>b \<in> set (docs s). book_id b \<noteq> i)))
   \<and> (rt_castObjectId rt idParam = None \<longrightarrow>
        get_book rt idParam s = (\<lparr> status = 500, json = Inl CastError \<rparr>, s))"
proof (intro conjI impI)
  assume nf: "status (fst (get_book rt idParam s)) = 404"
  show "\<exists>i. rt_castObjectId rt idParam = Some i \<and> (\<forall>b \<in> set (docs s). book_id b \<noteq> i)"
  proof (cases "rt_castObjectId rt idParam")
    case None
    then have "status (fst (get_book rt idParam s)) = 500"
      by (simp add: get_book_def Book_findById_def)
    with nf show ?thesis by simp
  next
    case (Some i)
    obtain ok s' where rt: "roundTrip s = (ok, s')" by (cases "roundTrip s")
    have d: "docs s' = docs s" using docs_roundTrip [of s] rt by simp
    from nf Some rt have "List.find (\<lambda>b. book_id b = i) (docs s') = None"
      by (auto simp: get_book_def Book_findById_def Book_findOne_def split: if_splits option.splits)
    then have "\<forall>b \<in> set (docs s). book_id b \<noteq> i"
      by (simp add: find_None_iff d)
    with Some show ?thesis by simp
  qed
next
  assume "rt_castObjectId rt idParam = None"
  then show "get_book rt idParam s = (\<lparr> status = 500, json = Inl CastError \<rparr>, s)"
    by (simp add: get_book_def Book_findById_def)
qed

theorem get_book_404_only_wellformed_witness:
  "status (fst (get_book rt2026 idUnknown shelf)) = 404
   \<and> (\<exists>i. rt_castObjectId rt2026 idUnknown = Some i
          \<and> list_all (\<lambda>b. book_id b \<noteq> i) (docs shelf))
   \<and> rt_castObjectId rt2026 ''dune'' = None
   \<and> get_book rt2026 ''dune'' shelf = (\<lparr> status = 500, json = Inl CastError \<rparr>, shelf)"
proof -
  have nf: "status (fst (get_book rt2026 idUnknown shelf)) = 404"
    by (simp add: get_book_def Book_findById_no_fault cast_samples shelf_facts)
  from get_book_404_only_wellformed [of rt2026 idUnknown shelf] nf
  have "\<exists>i. rt_castObjectId rt2026 idUnknown = Some i
          \<and> (\<forall>b \<in> set (docs shelf). book_id b \<noteq> i)"
    by blast
  then have e: "\<exists>i. rt_castObjectId rt2026 idUnknown = Some i
          \<and> list_all (\<lambda>b. book_id b \<noteq> i) (docs shelf)"
    by (simp add: list_all_iff)
  from get_book_404_only_wellformed [of rt2026 "''dune''" shelf] cast_samples(4)
  have "get_book rt2026 ''dune'' shelf = (\<lparr> status = 500, json = Inl CastError \<rparr>, shelf)"
    by blast
  with nf e cast_samples(4) show ?thesis by blast
qed

end
